theory Spec2Isabelle
  imports Complex_Main "HOL-Library.AList"
begin

section \<open>Numbers, objects and the component state\<close>

text \<open>
  The simulator is the React component \<^verbatim>\<open>InvestmentGrowthCalculator\<close>. Its numbers are
  JavaScript numbers, IEEE 754 binary64 values. They are modelled as the real numbers they
  denote. Arithmetic is exact real arithmetic, with one exception: the compounding loop of
  the baseline projection is computed in binary64 (\<open>binary64\<close> below), because its result
  goes straight into \<^verbatim>\<open>toFixed(2)\<close>, where the last bit of a product that lies next to half
  a cent decides the cent. Everywhere else the model differs from the code by the rounding
  error of the last bit only.

  \<^verbatim>\<open>x.toFixed(2)\<close> prints the magnitude of \<open>x\<close> rounded to the nearest hundredth, the
  larger candidate on a tie, with the sign in front; from \<open>10^21\<close> on it prints the number
  itself. \<^verbatim>\<open>parseFloat\<close> reads the digits back.
\<close>

definition toFixed2 :: "real \<Rightarrow> real" where
  "toFixed2 x =
     (if 10 ^ 21 \<le> \<bar>x\<bar> then x
      else if x < 0 then - (of_int \<lfloor>(- x) * 100 + 1 / 2\<rfloor> / 100)
      else of_int \<lfloor>x * 100 + 1 / 2\<rfloor> / 100)"

text \<open>
  Rounding a real to the nearest binary64 value, ties to the even significand: the number
  is scaled by a power of two so that its magnitude lies in \<open>[2^52, 2^53]\<close>, rounded to an
  integer and scaled back. \<open>binade x\<close> is the exponent of the largest power of two not above
  \<open>x\<close>, or one less when \<open>x\<close> is itself a power of two below 1, where the value is exact
  under either scaling. Overflow and subnormal numbers (magnitudes beyond \<open>2^1024\<close> or
  below \<open>2^-1022\<close>) are not modelled.
\<close>

fun bitLength :: "nat \<Rightarrow> nat" where
  "bitLength n = (if n = 0 then 0 else Suc (bitLength (n div 2)))"

declare bitLength.simps [simp del]

definition binade :: "real \<Rightarrow> int" where
  "binade x = (if 1 \<le> x then int (bitLength (nat \<lfloor>x\<rfloor>)) - 1
               else - int (bitLength (nat \<lfloor>1 / x\<rfloor>)))"

definition pow2 :: "int \<Rightarrow> real" where
  "pow2 e = (if 0 \<le> e then 2 ^ nat e else 1 / 2 ^ nat (- e))"

definition roundTiesToEven :: "real \<Rightarrow> int" where
  "roundTiesToEven x =
     (let n = \<lfloor>x\<rfloor>; d = x - of_int n
      in if d < 1 / 2 then n else if 1 / 2 < d then n + 1
         else if even n then n else n + 1)"

definition binary64 :: "real \<Rightarrow> real" where
  "binary64 x =
     (if x = 0 then 0
      else (let ulp = pow2 (binade \<bar>x\<bar> - 52)
            in of_int (roundTiesToEven (x / ulp)) * ulp))"

text \<open>
  An asset is the object literal stored under its name in \<^verbatim>\<open>assets\<close>. The asset table is an
  object used as a dictionary; it is modelled as the list of its entries in the order
  \<^verbatim>\<open>Object.entries\<close> yields them, with pairwise distinct keys.
\<close>

record asset =
  return :: real
  volatility :: real
  drawdownImpact :: real
  color :: string
  isBaseline :: bool
  crisisSensitivity :: real

type_synonym assetTable = "(string \<times> asset) list"

definition defaultAssets :: assetTable where
  "defaultAssets =
    [(''Baseline (No Scenario)'',
        \<lparr>return = 0, volatility = 0, drawdownImpact = 0, color = ''#000000'',
         isBaseline = True, crisisSensitivity = 0\<rparr>),
     (''BIL (Short-Term Treasuries)'',
        \<lparr>return = 3, volatility = 0.02, drawdownImpact = 0.1, color = ''#8884d8'',
         isBaseline = False, crisisSensitivity = 0.1\<rparr>),
     (''KMLM (Managed Futures)'',
        \<lparr>return = 4, volatility = 0.08, drawdownImpact = 0.3, color = ''#82ca9d'',
         isBaseline = False, crisisSensitivity = 0.5\<rparr>),
     (''SPHD (High-Dividend/Low-Vol)'',
        \<lparr>return = 6, volatility = 0.12, drawdownImpact = 0.7, color = ''#ffc658'',
         isBaseline = False, crisisSensitivity = 0.8\<rparr>),
     (''SWPPX/SPX (S&P 500)'',
        \<lparr>return = 7, volatility = 0.15, drawdownImpact = 1.0, color = ''#ff7300'',
         isBaseline = False, crisisSensitivity = 1.0\<rparr>),
     (''PFF (Preferred Stocks)'',
        \<lparr>return = 4, volatility = 0.1, drawdownImpact = 0.8, color = ''#00C49F'',
         isBaseline = False, crisisSensitivity = 0.9\<rparr>),
     (''VUG (Large-Cap Growth)'',
        \<lparr>return = 7, volatility = 0.18, drawdownImpact = 1.2, color = ''#0088FE'',
         isBaseline = False, crisisSensitivity = 1.2\<rparr>)]"

text \<open>
  The \<^verbatim>\<open>useState\<close> cells of the component that the engine reads. \<open>years\<close> and
  \<open>randomSeedBase\<close> hold integers (the year field is clamped to 1..30, the seed is
  \<^verbatim>\<open>Math.floor(Math.random() * 1000000)\<close> or the default 1).
\<close>

record state =
  annualFees :: real
  inflationRate :: real
  initialAmount :: real
  years :: nat
  enableRisk :: bool
  crisisType :: string
  drawdown :: real
  recoveryYears :: real
  recoveryType :: string
  volatilityLevel :: real
  randomSeedBase :: int
  enableVolatility :: bool
  assets :: assetTable

text \<open>
  A data point is the object of one year: one numeric column per asset name. (Its
  \<^verbatim>\<open>year\<close> label is a display string and is left out.) A trajectory is the array of the data
  points of the years \<open>0..years\<close>.

  \<open>cell\<close> reads \<^verbatim>\<open>scenario[y][name]\<close> and \<open>setCell\<close> assigns it. Reading a column that is not
  there gives \<^verbatim>\<open>undefined\<close> in JavaScript and turns the arithmetic into \<^verbatim>\<open>NaN\<close>; the model
  leaves that read unspecified. The pipeline reads only the columns of non-baseline assets,
  which \<open>baselineData\<close> has written (lemma \<open>baselineData_defined\<close>), at years up to \<open>years\<close>.
\<close>

type_synonym dataPoint = "string \<rightharpoonup> real"

definition cell :: "dataPoint list \<Rightarrow> nat \<Rightarrow> string \<Rightarrow> real" where
  "cell sc y name = the ((sc ! y) name)"

definition setCell :: "dataPoint list \<Rightarrow> nat \<Rightarrow> string \<Rightarrow> real \<Rightarrow> dataPoint list" where
  "setCell sc y name v = sc[y := (sc ! y)(name \<mapsto> v)]"

section \<open>Seeded random factors\<close>

text \<open>
  \<^verbatim>\<open>seed = (seed * 16807) % 2147483647; return (seed - 1) / 2147483646\<close>. The remainder
  of JavaScript takes the sign of the dividend. The generator's variable \<open>seed\<close> is threaded
  through the calls.
\<close>

definition js_rem :: "int \<Rightarrow> int \<Rightarrow> int" where
  "js_rem a b = sgn a * (\<bar>a\<bar> mod \<bar>b\<bar>)"

definition seededRandom :: "int \<Rightarrow> real \<times> int" where
  "seededRandom seed =
     (let seed' = js_rem (seed * 16807) 2147483647
      in ((of_int seed' - 1) / 2147483646, seed'))"

definition normalRandom :: "int \<Rightarrow> real \<times> int" where
  "normalRandom seed =
     (let (u1, seed1) = seededRandom seed;
          (u2, seed2) = seededRandom seed1
      in (sqrt (- 2 * ln u1) * cos (2 * pi * u2), seed2))"

text \<open>
  \<^verbatim>\<open>Array(n).fill(0).map(() => normalRandom() * asset.volatility * volatilityLevel)\<close>:
  the callback runs once per index, in index order.
\<close>

fun normalDraws :: "nat \<Rightarrow> real \<Rightarrow> real \<Rightarrow> int \<Rightarrow> real list \<times> int" where
  "normalDraws 0 vol level seed = ([], seed)"
| "normalDraws (Suc n) vol level seed =
     (let (z, seed1) = normalRandom seed;
          (rest, seed2) = normalDraws n vol level seed1
      in (z * vol * level # rest, seed2))"

definition factorsStep ::
  "nat \<Rightarrow> real \<Rightarrow> string \<times> asset \<Rightarrow> (string \<rightharpoonup> real list) \<times> int \<Rightarrow> (string \<rightharpoonup> real list) \<times> int"
where
  "factorsStep n level entry acc =
     (case (entry, acc) of ((name, a), (factors, seed)) \<Rightarrow>
        if isBaseline a then (factors(name \<mapsto> replicate n 0), seed)
        else (let (xs, seed') = normalDraws n (volatility a) level seed
              in (factors(name \<mapsto> xs), seed')))"

definition randomFactors :: "state \<Rightarrow> string \<rightharpoonup> real list" where
  "randomFactors st =
     fst (fold (factorsStep (years st + 1) (volatilityLevel st)) (assets st)
            (Map.empty, randomSeedBase st))"

section \<open>Baseline projection\<close>

definition baselineKey :: string where
  "baselineKey = ''Baseline (No Scenario)''"

text \<open>
  \<^verbatim>\<open>for (let y = 1; y <= yearIndex; y++) value *= 1 + asset.return / 100\<close>, in binary64:
  the quotient, the sum and the product are each rounded.
\<close>

fun compound :: "real \<Rightarrow> real \<Rightarrow> nat \<Rightarrow> real" where
  "compound value r 0 = value"
| "compound value r (Suc n) =
     compound (binary64 (value * binary64 (1 + binary64 (r / 100)))) r n"

definition baselineStep :: "real \<Rightarrow> nat \<Rightarrow> string \<times> asset \<Rightarrow> dataPoint \<Rightarrow> dataPoint" where
  "baselineStep amount yearIndex entry dataPoint =
     (case entry of (name, a) \<Rightarrow>
        if isBaseline a then dataPoint
        else dataPoint(name \<mapsto> toFixed2 (compound amount (return a) yearIndex)))"

definition baselinePoint :: "state \<Rightarrow> nat \<Rightarrow> dataPoint" where
  "baselinePoint st yearIndex =
     fold (baselineStep (initialAmount st) yearIndex) (assets st)
       (Map.empty(baselineKey \<mapsto> toFixed2 (initialAmount st)))"

definition baselineData :: "state \<Rightarrow> dataPoint list" where
  "baselineData st = map (baselinePoint st) [0..<Suc (years st)]"

section \<open>Scenario: drag, crisis, volatility\<close>

definition combinedAnnualDrag :: "state \<Rightarrow> real" where
  "combinedAnnualDrag st = (annualFees st + inflationRate st) / 100"

definition dragStep :: "real \<Rightarrow> nat \<Rightarrow> string \<times> asset \<Rightarrow> dataPoint list \<Rightarrow> dataPoint list" where
  "dragStep drag yearIndex entry sc =
     (case entry of (name, a) \<Rightarrow>
        if isBaseline a then sc
        else setCell sc yearIndex name (cell sc yearIndex name / (1 + drag) ^ yearIndex))"

definition applyDrag :: "state \<Rightarrow> dataPoint list \<Rightarrow> dataPoint list" where
  "applyDrag st sc =
     fold (\<lambda>yearIndex. fold (dragStep (combinedAnnualDrag st) yearIndex) (assets st))
       [1..<Suc (years st)] sc"

text \<open>\<^verbatim>\<open>asset.crisisSensitivity || 1\<close>: of the real numbers only 0 is falsy.\<close>

definition crisisSensitivityOr1 :: "asset \<Rightarrow> real" where
  "crisisSensitivityOr1 a = (if crisisSensitivity a = 0 then 1 else crisisSensitivity a)"

definition drawdownImpactDecimal :: "state \<Rightarrow> asset \<Rightarrow> real" where
  "drawdownImpactDecimal st a =
     (drawdown st / 100) * drawdownImpact a * crisisSensitivityOr1 a"

definition permanentDamageRatio :: "state \<Rightarrow> asset \<Rightarrow> real" where
  "permanentDamageRatio st a =
     (let baseDamage = drawdownImpactDecimal st a * 0.4;
          sensitivityAdjustedDamage = baseDamage * crisisSensitivityOr1 a
      in if crisisType st = ''RISK_OFF'' then 0.90 - sensitivityAdjustedDamage
         else if crisisType st = ''RISING_RATES''
           then 0.85 - sensitivityAdjustedDamage * min (1.5 * crisisSensitivityOr1 a) 1
         else 0.95 - sensitivityAdjustedDamage)"

definition recoveryExponent :: "state \<Rightarrow> real" where
  "recoveryExponent st =
     (if recoveryType st = ''V_SHAPED'' then 0.5
      else if recoveryType st = ''U_SHAPED'' then 1.5 else 3)"

definition recoveryTarget :: "state \<Rightarrow> dataPoint list \<Rightarrow> string \<Rightarrow> asset \<Rightarrow> nat \<Rightarrow> real" where
  "recoveryTarget st bd name a y =
     (cell bd y name / (1 + combinedAnnualDrag st) ^ y) * permanentDamageRatio st a"

text \<open>
  One round of the loop \<^verbatim>\<open>for (let y = 2; y <= years; y++)\<close>. \<^verbatim>\<open>Math.pow(progress, exponent)\<close>
  is \<open>powr\<close>: the branch is entered only with \<open>2 \<le> y \<le> recoveryYears + 1\<close>, where
  \<open>progress\<close> is positive.
\<close>

definition crisisYear ::
  "state \<Rightarrow> dataPoint list \<Rightarrow> string \<Rightarrow> asset \<Rightarrow> nat \<Rightarrow> dataPoint list \<Rightarrow> dataPoint list"
where
  "crisisYear st bd name a y sc =
     (let target = recoveryTarget st bd name a y;
          drawdownValue = cell sc 1 name
      in if real y \<le> recoveryYears st + 1 then
           (let progress = (real y - 1) / recoveryYears st;
                recoveryFactor = progress powr recoveryExponent st
            in setCell sc y name
                 (min (drawdownValue + (target - drawdownValue) * recoveryFactor) target))
         else
           (let reducedReturn = return a * permanentDamageRatio st a;
                grown = cell sc (y - 1) name * (1 + reducedReturn / 100)
            in setCell sc y name (if grown > target then target else grown)))"

definition crisisAsset ::
  "state \<Rightarrow> dataPoint list \<Rightarrow> string \<times> asset \<Rightarrow> dataPoint list \<Rightarrow> dataPoint list"
where
  "crisisAsset st bd entry sc =
     (case entry of (name, a) \<Rightarrow>
        if isBaseline a then sc
        else
          (let sc1 = (if years st \<ge> 1
                      then setCell sc 1 name (cell sc 1 name * (1 - drawdownImpactDecimal st a))
                      else sc)
           in fold (crisisYear st bd name a) [2..<Suc (years st)] sc1))"

definition applyCrisis :: "state \<Rightarrow> dataPoint list \<Rightarrow> dataPoint list \<Rightarrow> dataPoint list" where
  "applyCrisis st bd sc =
     (if enableRisk st \<and> crisisType st \<noteq> ''NONE''
      then fold (crisisAsset st bd) (assets st) sc else sc)"

definition volatilityStep ::
  "(string \<rightharpoonup> real list) \<Rightarrow> nat \<Rightarrow> string \<times> asset \<Rightarrow> dataPoint list \<Rightarrow> dataPoint list"
where
  "volatilityStep factors yearIndex entry sc =
     (case entry of (name, a) \<Rightarrow>
        if isBaseline a then sc
        else setCell sc yearIndex name
               (toFixed2 (cell sc yearIndex name * (1 + the (factors name) ! yearIndex))))"

definition applyVolatility ::
  "state \<Rightarrow> (string \<rightharpoonup> real list) \<Rightarrow> dataPoint list \<Rightarrow> dataPoint list"
where
  "applyVolatility st factors sc =
     (if enableVolatility st
      then fold (\<lambda>yearIndex. fold (volatilityStep factors yearIndex) (assets st))
             [1..<Suc (years st)] sc
      else sc)"

text \<open>The \<^verbatim>\<open>data\<close> component of \<^verbatim>\<open>scenarioData\<close>; the copy of \<open>baselineData\<close> is the value itself.\<close>

definition scenarioData :: "state \<Rightarrow> dataPoint list" where
  "scenarioData st =
     applyVolatility st (randomFactors st)
       (applyCrisis st (baselineData st) (applyDrag st (baselineData st)))"

section \<open>Summary metrics: maximum drawdown\<close>

text \<open>
  The loop over \<open>y = 1..years\<close> with its variables \<open>peak\<close> and \<open>maxDrawdown\<close>; the list holds
  \<^verbatim>\<open>scenario[1][name]\<close>, ..., \<^verbatim>\<open>scenario[years][name]\<close>.
\<close>

fun maxDrawdownLoop :: "real list \<Rightarrow> real \<Rightarrow> real \<Rightarrow> real" where
  "maxDrawdownLoop [] peak maxDrawdown = maxDrawdown"
| "maxDrawdownLoop (currentValue # rest) peak maxDrawdown =
     (let peak' = (if currentValue > peak then currentValue else peak);
          dd = (peak' - currentValue) / peak' * 100
      in maxDrawdownLoop rest peak' (max maxDrawdown dd))"

definition maxDrawdownOf :: "dataPoint list \<Rightarrow> nat \<Rightarrow> string \<Rightarrow> real" where
  "maxDrawdownOf sc n name =
     toFixed2 (maxDrawdownLoop (map (\<lambda>y. cell sc y name) [1..<Suc n]) (cell sc 0 name) 0)"

text \<open>The \<^verbatim>\<open>maxDrawdown\<close> field of \<^verbatim>\<open>summaryMetrics[name]\<close>, for the non-baseline assets.\<close>

definition metricsStep ::
  "dataPoint list \<Rightarrow> nat \<Rightarrow> string \<times> asset \<Rightarrow> (string \<rightharpoonup> real) \<Rightarrow> (string \<rightharpoonup> real)"
where
  "metricsStep sc n entry summaryMetrics =
     (case entry of (name, a) \<Rightarrow>
        if isBaseline a then summaryMetrics
        else summaryMetrics(name \<mapsto> maxDrawdownOf sc n name))"

definition summaryMaxDrawdown :: "state \<Rightarrow> dataPoint list \<Rightarrow> string \<rightharpoonup> real" where
  "summaryMaxDrawdown st sc = fold (metricsStep sc (years st)) (assets st) Map.empty"

section \<open>Editing the asset table\<close>

text \<open>The decimal digits of \<^verbatim>\<open>Object.keys(assets).length\<close> in the template literal.\<close>

fun string_of_nat :: "nat \<Rightarrow> string" where
  "string_of_nat n =
     (if n < 10 then [''0123456789'' ! n]
      else string_of_nat (n div 10) @ [''0123456789'' ! (n mod 10)])"

declare string_of_nat.simps [simp del]

definition newAsset :: asset where
  "newAsset = \<lparr>return = 5, volatility = 0.1, drawdownImpact = 0.5, color = ''#999999'',
               isBaseline = False, crisisSensitivity = 1.0\<rparr>"

text \<open>
  \<^verbatim>\<open>{...prev, [newName]: {...}}\<close>: an existing key keeps its place and takes the new value, a
  new key goes to the end.
\<close>

definition handleAddAsset :: "state \<Rightarrow> state" where
  "handleAddAsset st =
     (let newName = ''New Asset '' @ string_of_nat (length (assets st))
      in st\<lparr>assets := AList.update newName newAsset (assets st)\<rparr>)"

text \<open>
  \<^verbatim>\<open>assets[name].isBaseline\<close> throws a \<^verbatim>\<open>TypeError\<close> when \<open>name\<close> is not a key of the table.
\<close>

datatype error = TypeError

definition handleRemoveAsset :: "string \<Rightarrow> state \<Rightarrow> error + state" where
  "handleRemoveAsset name st =
     (case map_of (assets st) name of
        None \<Rightarrow> Inl TypeError
      | Some a \<Rightarrow>
          if isBaseline a then Inr st
          else Inr (st\<lparr>assets := AList.delete name (assets st)\<rparr>))"

section \<open>Concrete inputs\<close>

text \<open>The state the component starts in and returns to on reset.\<close>

definition defaultState :: state where
  "defaultState =
     \<lparr>annualFees = 0, inflationRate = 2.5, initialAmount = 100000, years = 5,
      enableRisk = False, crisisType = ''NONE'', drawdown = 0, recoveryYears = 1,
      recoveryType = ''V_SHAPED'', volatilityLevel = 1, randomSeedBase = 1,
      enableVolatility = False, assets = defaultAssets\<rparr>"

text \<open>A risk-off crisis of 20 percent, and an asset whose sensitivity field was set to 0.\<close>

definition crisisState :: state where
  "crisisState = defaultState\<lparr>enableRisk := True, crisisType := ''RISK_OFF'', drawdown := 20\<rparr>"

definition zeroSensitivityAsset :: asset where
  "zeroSensitivityAsset = newAsset\<lparr>drawdownImpact := 1, crisisSensitivity := 0\<rparr>"

text \<open>The table after one asset was added to the default table and another one removed.\<close>

definition afterAddRemove :: state where
  "afterAddRemove = defaultState\<lparr>assets :=
      AList.delete ''BIL (Short-Term Treasuries)''
        (AList.update ''New Asset 7'' newAsset defaultAssets)\<rparr>"

text \<open>An initial amount with a fraction of a cent.\<close>

definition fractionalState :: state where
  "fractionalState = defaultState\<lparr>initialAmount := 1234.567\<rparr>"

text \<open>
  The end-to-end scenario: no fees, no inflation, no risk, no volatility, the baseline and
  the S&P 500 asset (return 7); and the same with a horizon of one year.
\<close>

definition e2eState :: state where
  "e2eState = defaultState\<lparr>inflationRate := 0,
     assets := [defaultAssets ! 0, defaultAssets ! 4]\<rparr>"

definition oneYearState :: state where
  "oneYearState = e2eState\<lparr>years := 1\<rparr>"

text \<open>
  The end-to-end scenario with an asset of return 15, whose exact value after four years,
  174900.625, lies on half a cent.
\<close>

definition tieState :: state where
  "tieState = e2eState\<lparr>assets :=
     [defaultAssets ! 0, (''New Asset 7'', newAsset\<lparr>return := 15\<rparr>)]\<rparr>"

text \<open>
  The crisis state after an asset was added and its drawdown impact set to 1 and its crisis
  sensitivity to 0.
\<close>

definition zeroSensitivityState :: state where
  "zeroSensitivityState = crisisState\<lparr>assets :=
     AList.update ''New Asset 7'' zeroSensitivityAsset defaultAssets\<rparr>"

text \<open>
  The default state with other fees, the risk switch on, and every asset's return and colour
  changed: the inputs of the random factors are the same.
\<close>

definition recoloredState :: state where
  "recoloredState = defaultState\<lparr>annualFees := 1, enableRisk := True,
     assets := map (\<lambda>(k, a). (k, a\<lparr>return := 2 * return a, color := ''#123456''\<rparr>)) defaultAssets\<rparr>"

section \<open>Facts about the concrete inputs\<close>

lemma default_facts:
  "distinct (map fst (assets defaultState))"
  "(baselineKey, snd (hd defaultAssets)) \<in> set (assets defaultState)"
  "isBaseline (snd (hd defaultAssets))" "years defaultState = 5"
  "initialAmount defaultState = 100000"
  by (simp_all add: defaultState_def defaultAssets_def baselineKey_def)

lemma fractional_facts:
  "distinct (map fst (assets fractionalState))"
  "(baselineKey, snd (hd defaultAssets)) \<in> set (assets fractionalState)"
  "years fractionalState = 5" "initialAmount fractionalState = 1234.567"
  by (simp_all add: fractionalState_def defaultState_def defaultAssets_def baselineKey_def)

lemma e2e_facts:
  "\<not> enableRisk e2eState" "\<not> enableVolatility e2eState"
  "distinct (map fst (assets e2eState))"
  "(''SWPPX/SPX (S&P 500)'', snd (defaultAssets ! 4)) \<in> set (assets e2eState)"
  "\<not> isBaseline (snd (defaultAssets ! 4))" "return (snd (defaultAssets ! 4)) = 7"
  "initialAmount e2eState = 100000" "years e2eState = 5"
  "annualFees e2eState = 0" "inflationRate e2eState = 0"
  by (simp_all add: e2eState_def defaultState_def defaultAssets_def)

lemma oneYear_facts:
  "\<not> enableRisk oneYearState" "\<not> enableVolatility oneYearState"
  "distinct (map fst (assets oneYearState))"
  "(''SWPPX/SPX (S&P 500)'', snd (defaultAssets ! 4)) \<in> set (assets oneYearState)"
  "initialAmount oneYearState = 100000" "years oneYearState = 1"
  "combinedAnnualDrag oneYearState = 0"
  by (simp_all add: oneYearState_def e2eState_def defaultState_def defaultAssets_def
        combinedAnnualDrag_def)

lemma crisis_facts:
  "enableRisk crisisState" "crisisType crisisState \<noteq> ''NONE''" "\<not> enableVolatility crisisState"
  "distinct (map fst (assets crisisState))"
  "(''SWPPX/SPX (S&P 500)'', snd (defaultAssets ! 4)) \<in> set (assets crisisState)"
  "years crisisState = 5"
  by (simp_all add: crisisState_def defaultState_def defaultAssets_def)

lemma tie_facts:
  "\<not> enableRisk tieState" "\<not> enableVolatility tieState"
  "distinct (map fst (assets tieState))"
  "(''New Asset 7'', newAsset\<lparr>return := 15\<rparr>) \<in> set (assets tieState)"
  "\<not> isBaseline (newAsset\<lparr>return := 15\<rparr>)" "return (newAsset\<lparr>return := 15\<rparr>) = 15"
  "initialAmount tieState = 100000" "years tieState = 5"
  "annualFees tieState = 0" "inflationRate tieState = 0"
  by (simp_all add: tieState_def e2eState_def defaultState_def defaultAssets_def newAsset_def)

lemma zeroSensitivity_facts:
  "enableRisk zeroSensitivityState" "crisisType zeroSensitivityState = ''RISK_OFF''"
  "distinct (map fst (assets zeroSensitivityState))"
  "(''New Asset 7'', zeroSensitivityAsset) \<in> set (assets zeroSensitivityState)"
  "\<not> isBaseline zeroSensitivityAsset" "crisisSensitivity zeroSensitivityAsset = 0"
  "return zeroSensitivityAsset = 5" "drawdownImpact zeroSensitivityAsset = 1"
  "initialAmount zeroSensitivityState = 100000" "years zeroSensitivityState = 5"
  "annualFees zeroSensitivityState = 0" "inflationRate zeroSensitivityState = 2.5"
  "drawdown zeroSensitivityState = 20"
  by (simp_all add: zeroSensitivityState_def crisisState_def defaultState_def defaultAssets_def
        zeroSensitivityAsset_def newAsset_def)

lemma recolored_facts:
  "randomSeedBase recoloredState = randomSeedBase defaultState"
  "years recoloredState = years defaultState"
  "volatilityLevel recoloredState = volatilityLevel defaultState"
  "map fst (assets recoloredState) = map fst (assets defaultState)"
  "map (volatility \<circ> snd) (assets recoloredState) = map (volatility \<circ> snd) (assets defaultState)"
  "map (isBaseline \<circ> snd) (assets recoloredState) = map (isBaseline \<circ> snd) (assets defaultState)"
  "assets recoloredState \<noteq> assets defaultState"
  by (simp_all add: recoloredState_def defaultState_def defaultAssets_def)

section \<open>Rounding to cents\<close>

lemma toFixed2_zero: "toFixed2 0 = 0"
  by (simp add: toFixed2_def)

lemma toFixed2_nonneg: "0 \<le> x \<Longrightarrow> 0 \<le> toFixed2 x"
  by (simp add: toFixed2_def)

lemma toFixed2_cents:
  assumes "x * 100 \<in> \<int>"
  shows "toFixed2 x = x"
proof -
  from assms obtain n :: int where n: "x * 100 = of_int n" by (auto elim: Ints_cases)
  have x: "x = of_int n / 100" using n by simp
  have "\<lfloor>(of_int n :: real) + 1 / 2\<rfloor> = n" by linarith
  moreover have "\<lfloor>- (of_int n :: real) + 1 / 2\<rfloor> = - n" by linarith
  ultimately show ?thesis by (simp add: toFixed2_def x)
qed

section \<open>Compounding in binary64\<close>

lemma bitLength_0: "bitLength 0 = 0"
  by (simp add: bitLength.simps)

lemma bitLength_1: "bitLength (Suc 0) = 1"
  by (simp add: bitLength.simps [of "Suc 0"] bitLength_0)

lemma bitLength_numeral: "bitLength (numeral k) = Suc (bitLength (numeral k div 2))"
  by (simp add: bitLength.simps [of "numeral k"])

lemmas binary64_eval = binary64_def binade_def pow2_def roundTiesToEven_def Let_def
  bitLength_0 bitLength_1 bitLength_numeral

lemma compound_numeral:
  "compound v r (numeral k) =
     compound (binary64 (v * binary64 (1 + binary64 (r / 100)))) r (pred_numeral k)"
  by (simp add: numeral_eq_Suc)

text \<open>
  The values of the loop as binary64 numbers: 140255.17307000005... after five years at 7
  percent, 174900.62499999991... after four years at 15 percent.
\<close>

lemma compound_e2e: "compound 100000 7 5 = 4819131051443761 / 34359738368"
  by (simp add: compound_numeral binary64_eval)

lemma compound_tie: "compound 100000 15 4 = 6009539715399677 / 34359738368"
  by (simp add: compound_numeral binary64_eval)

lemma round_e2e: "toFixed2 (compound 100000 7 5) = 140255.17"
  by (simp add: compound_e2e toFixed2_def)

lemma round_tie: "toFixed2 (compound 100000 15 4) = 174900.62"
  by (simp add: compound_tie toFixed2_def)

section \<open>Determinism of the random factors\<close>

lemma factorsStep_cong:
  "fst e' = fst e \<Longrightarrow> volatility (snd e') = volatility (snd e) \<Longrightarrow>
   isBaseline (snd e') = isBaseline (snd e) \<Longrightarrow>
   factorsStep n l e' acc = factorsStep n l e acc"
  by (cases e; cases e'; cases acc) (simp add: factorsStep_def)

lemma fold_factorsStep_cong:
  "map fst as' = map fst as \<Longrightarrow>
   map (volatility \<circ> snd) as' = map (volatility \<circ> snd) as \<Longrightarrow>
   map (isBaseline \<circ> snd) as' = map (isBaseline \<circ> snd) as \<Longrightarrow>
   fold (factorsStep n l) as' acc = fold (factorsStep n l) as acc"
proof (induction as arbitrary: as' acc)
  case Nil
  then show ?case by simp
next
  case (Cons e as)
  then obtain e' as'' where as': "as' = e' # as''" by (cases as') auto
  have step: "factorsStep n l e' acc = factorsStep n l e acc"
    using Cons.prems by (intro factorsStep_cong) (simp_all add: as')
  have "fold (factorsStep n l) as'' (factorsStep n l e acc)
          = fold (factorsStep n l) as (factorsStep n l e acc)"
    using Cons.prems by (intro Cons.IH) (simp_all add: as')
  then show ?case by (simp add: as' step)
qed

lemma factorsStep_fst_other:
  "k \<noteq> fst e \<Longrightarrow> fst (factorsStep n l e acc) k = fst acc k"
  by (cases e; cases acc) (simp add: factorsStep_def split: prod.split)

lemma factorsStep_fst_baseline:
  "isBaseline a \<Longrightarrow> fst (factorsStep n l (k, a) acc) k = Some (replicate n 0)"
  by (cases acc) (simp add: factorsStep_def)

lemma fold_factorsStep_other:
  "k \<notin> fst ` set as \<Longrightarrow> fst (fold (factorsStep n l) as acc) k = fst acc k"
  by (induction as arbitrary: acc) (simp_all add: factorsStep_fst_other)

lemma fold_factorsStep_baseline:
  "distinct (map fst as) \<Longrightarrow> (k, a) \<in> set as \<Longrightarrow> isBaseline a \<Longrightarrow>
   fst (fold (factorsStep n l) as acc) k = Some (replicate n 0)"
proof (induction as arbitrary: acc)
  case Nil
  then show ?case by simp
next
  case (Cons e as)
  show ?case
  proof (cases "fst e = k")
    case True
    have notin: "k \<notin> fst ` set as" using Cons.prems(1) True by auto
    then have e: "e = (k, a)" using Cons.prems(2) True by (cases e) (auto simp: image_iff)
    show ?thesis using Cons.prems(3)
      by (simp add: e fold_factorsStep_other [OF notin] factorsStep_fst_baseline)
  next
    case False
    then have "(k, a) \<in> set as" using Cons.prems(2) by auto
    then show ?thesis using Cons.prems Cons.IH by simp
  qed
qed

text \<open>
  C6. The random factors are a function of \<open>randomSeedBase\<close>, \<open>years\<close>, \<open>volatilityLevel\<close> and
  of the names, the \<open>volatility\<close> and the \<open>isBaseline\<close> fields of the assets in their order:
  two states that agree on these have equal factor tables, whatever else differs. The factor
  array of a baseline asset is \<open>years + 1\<close> zeros.
\<close>

theorem randomFactors_deterministic:
  "(randomSeedBase st' = randomSeedBase st \<and> years st' = years st
      \<and> volatilityLevel st' = volatilityLevel st
      \<and> map fst (assets st') = map fst (assets st)
      \<and> map (volatility \<circ> snd) (assets st') = map (volatility \<circ> snd) (assets st)
      \<and> map (isBaseline \<circ> snd) (assets st') = map (isBaseline \<circ> snd) (assets st)
    \<longrightarrow> randomFactors st' = randomFactors st)
   \<and> (distinct (map fst (assets st)) \<and> (k, a) \<in> set (assets st) \<and> isBaseline a
    \<longrightarrow> randomFactors st k = Some (replicate (years st + 1) 0))"
proof (intro conjI impI)
  assume "randomSeedBase st' = randomSeedBase st \<and> years st' = years st
      \<and> volatilityLevel st' = volatilityLevel st
      \<and> map fst (assets st') = map fst (assets st)
      \<and> map (volatility \<circ> snd) (assets st') = map (volatility \<circ> snd) (assets st)
      \<and> map (isBaseline \<circ> snd) (assets st') = map (isBaseline \<circ> snd) (assets st)"
  then show "randomFactors st' = randomFactors st"
    unfolding randomFactors_def
    using fold_factorsStep_cong [of "assets st'" "assets st" "years st + 1" "volatilityLevel st"
            "(Map.empty, randomSeedBase st)"]
    by simp
next
  assume "distinct (map fst (assets st)) \<and> (k, a) \<in> set (assets st) \<and> isBaseline a"
  then show "randomFactors st k = Some (replicate (years st + 1) 0)"
    unfolding randomFactors_def by (intro fold_factorsStep_baseline [where a = a]) simp_all
qed

theorem randomFactors_deterministic_witness:
  "randomFactors recoloredState = randomFactors defaultState
   \<and> randomFactors defaultState baselineKey = Some (replicate (years defaultState + 1) 0)"
  using randomFactors_deterministic
          [of recoloredState defaultState baselineKey "snd (hd defaultAssets)"]
  by (simp add: recolored_facts default_facts)

section \<open>Trajectories: rows, columns and frames\<close>

lemma length_setCell [simp]: "length (setCell sc y k v) = length sc"
  by (simp add: setCell_def)

lemma setCell_nth:
  "(setCell sc y k v ! y') k' =
     (if y' = y \<and> y < length sc \<and> k' = k then Some v else (sc ! y') k')"
  by (cases "y < length sc") (auto simp: setCell_def nth_list_update list_update_beyond)

lemma fold_length:
  "(\<And>x sc. length (f x sc) = length sc) \<Longrightarrow> length (fold f xs sc) = length sc"
  by (induction xs arbitrary: sc) simp_all

lemma fold_keeps:
  "(\<And>x sc. x \<in> set xs \<Longrightarrow> (f x sc ! y) k = (sc ! y) k) \<Longrightarrow>
   (fold f xs sc ! y) k = (sc ! y) k"
  by (induction xs arbitrary: sc) simp_all

subsection \<open>The baseline projection\<close>

lemma baselineStep_apply:
  "baselineStep amount y (k0, a0) dp =
     (if isBaseline a0 then dp else dp(k0 \<mapsto> toFixed2 (compound amount (return a0) y)))"
  by (simp add: baselineStep_def)

lemma fold_baselineStep_other:
  "(\<And>a. (k, a) \<in> set as \<Longrightarrow> isBaseline a) \<Longrightarrow> fold (baselineStep amount y) as dp k = dp k"
proof (induction as arbitrary: dp)
  case Nil
  show ?case by simp
next
  case (Cons e as)
  obtain k0 a0 where e: "e = (k0, a0)" by (cases e)
  have "fold (baselineStep amount y) as (baselineStep amount y e dp) k = baselineStep amount y e dp k"
    using Cons.prems by (intro Cons.IH) simp
  also have "\<dots> = dp k"
    using Cons.prems [of a0] by (auto simp: e baselineStep_apply)
  finally show ?case by simp
qed

lemma fold_baselineStep_live:
  "distinct (map fst as) \<Longrightarrow> (k, a) \<in> set as \<Longrightarrow> \<not> isBaseline a \<Longrightarrow>
   fold (baselineStep amount y) as dp k = Some (toFixed2 (compound amount (return a) y))"
proof (induction as arbitrary: dp)
  case Nil
  then show ?case by simp
next
  case (Cons e as)
  obtain k0 a0 where e: "e = (k0, a0)" by (cases e)
  show ?case
  proof (cases "k0 = k")
    case True
    have notin: "k \<notin> fst ` set as" using Cons.prems(1) e True by simp
    then have here: "a0 = a" using Cons.prems(2) e True by (auto simp: image_iff)
    have "fold (baselineStep amount y) as (baselineStep amount y e dp) k
            = baselineStep amount y e dp k"
      using notin by (intro fold_baselineStep_other) (auto simp: image_iff)
    then show ?thesis using Cons.prems(3) by (simp add: e True here baselineStep_apply)
  next
    case False
    then have "(k, a) \<in> set as" using Cons.prems(2) e by auto
    then show ?thesis using Cons.IH Cons.prems by simp
  qed
qed

lemma length_baselineData [simp]: "length (baselineData st) = Suc (years st)"
  by (simp add: baselineData_def)

lemma baselineData_nth: "y \<le> years st \<Longrightarrow> baselineData st ! y = baselinePoint st y"
  unfolding baselineData_def using nth_map_upt [of y "Suc (years st)" 0 "baselinePoint st"]
  by simp

lemma baselineData_defined:
  "distinct (map fst (assets st)) \<Longrightarrow> (k, a) \<in> set (assets st) \<Longrightarrow> \<not> isBaseline a \<Longrightarrow>
   y \<le> years st \<Longrightarrow>
   (baselineData st ! y) k = Some (toFixed2 (compound (initialAmount st) (return a) y))"
  by (simp add: baselineData_nth baselinePoint_def fold_baselineStep_live)

lemma baselineData_baselineKey:
  "(\<And>a. (baselineKey, a) \<in> set (assets st) \<Longrightarrow> isBaseline a) \<Longrightarrow> y \<le> years st \<Longrightarrow>
   (baselineData st ! y) baselineKey = Some (toFixed2 (initialAmount st))"
  by (simp add: baselineData_nth baselinePoint_def fold_baselineStep_other)

subsection \<open>The drag stage\<close>

lemma length_dragStep [simp]: "length (dragStep d y e sc) = length sc"
  by (cases e) (simp add: dragStep_def)

lemma dragStep_nth:
  "(dragStep d y (k0, a0) sc ! y') k =
     (if \<not> isBaseline a0 \<and> y' = y \<and> y < length sc \<and> k = k0
      then Some (cell sc y k0 / (1 + d) ^ y) else (sc ! y') k)"
  by (simp add: dragStep_def setCell_nth)

lemma fold_dragStep_nth:
  "distinct (map fst as) \<Longrightarrow> y < length sc \<Longrightarrow>
   (fold (dragStep d y) as sc ! y') k =
     (if y' = y \<and> (\<exists>a. (k, a) \<in> set as \<and> \<not> isBaseline a)
      then Some (cell sc y k / (1 + d) ^ y) else (sc ! y') k)"
proof (induction as arbitrary: sc)
  case Nil
  show ?case by simp
next
  case (Cons e as)
  obtain k0 a0 where e: "e = (k0, a0)" by (cases e)
  let ?sc = "dragStep d y e sc"
  have notin: "k0 \<notin> fst ` set as" using Cons.prems(1) e by simp
  have IH: "(fold (dragStep d y) as ?sc ! y') k =
     (if y' = y \<and> (\<exists>a. (k, a) \<in> set as \<and> \<not> isBaseline a)
      then Some (cell ?sc y k / (1 + d) ^ y) else (?sc ! y') k)"
    using Cons.prems by (intro Cons.IH) simp_all
  show ?case
  proof (cases "\<exists>a. (k, a) \<in> set as \<and> \<not> isBaseline a")
    case True
    then have "k \<noteq> k0" using notin by (auto simp: image_iff)
    then have "cell ?sc y k = cell sc y k" "(?sc ! y') k = (sc ! y') k"
      by (simp_all add: cell_def e dragStep_nth)
    then show ?thesis using True IH by auto
  next
    case False
    then show ?thesis using IH Cons.prems(2) notin
      by (auto simp: e dragStep_nth image_iff)
  qed
qed

lemma length_applyDrag [simp]: "length (applyDrag st sc) = length sc"
  unfolding applyDrag_def by (intro fold_length) simp

lemma fold_drag_years_nth:
  "distinct (map fst as) \<Longrightarrow> n < length sc \<Longrightarrow>
   (fold (\<lambda>y. fold (dragStep d y) as) [Suc 0..<Suc n] sc ! y') k =
     (if 1 \<le> y' \<and> y' \<le> n \<and> (\<exists>a. (k, a) \<in> set as \<and> \<not> isBaseline a)
      then Some (cell sc y' k / (1 + d) ^ y') else (sc ! y') k)"
proof (induction n arbitrary: y' k)
  case 0
  show ?case by auto
next
  case (Suc n)
  let ?sc = "fold (\<lambda>y. fold (dragStep d y) as) [Suc 0..<Suc n] sc"
  have len: "length ?sc = length sc" by (intro fold_length) simp
  have IH: "(?sc ! y') k =
     (if 1 \<le> y' \<and> y' \<le> n \<and> (\<exists>a. (k, a) \<in> set as \<and> \<not> isBaseline a)
      then Some (cell sc y' k / (1 + d) ^ y') else (sc ! y') k)" for y' k
    by (intro Suc.IH) (use Suc.prems in simp_all)
  have row: "cell ?sc (Suc n) k = cell sc (Suc n) k"
    unfolding cell_def IH by simp
  have split: "[Suc 0..<Suc (Suc n)] = [Suc 0..<Suc n] @ [Suc n]"
    by (rule upt_Suc_append) simp
  have "(fold (\<lambda>y. fold (dragStep d y) as) [Suc 0..<Suc (Suc n)] sc ! y') k
          = (fold (dragStep d (Suc n)) as ?sc ! y') k"
    unfolding split by (simp del: upt_Suc)
  also have "\<dots> = (if y' = Suc n \<and> (\<exists>a. (k, a) \<in> set as \<and> \<not> isBaseline a)
      then Some (cell ?sc (Suc n) k / (1 + d) ^ Suc n) else (?sc ! y') k)"
    using Suc.prems by (intro fold_dragStep_nth) (simp_all add: len del: upt_Suc)
  also have "\<dots> = (if 1 \<le> y' \<and> y' \<le> Suc n \<and> (\<exists>a. (k, a) \<in> set as \<and> \<not> isBaseline a)
      then Some (cell sc y' k / (1 + d) ^ y') else (sc ! y') k)"
    unfolding row IH by (auto simp: le_Suc_eq)
  finally show ?case .
qed

lemma applyDrag_nth:
  "distinct (map fst (assets st)) \<Longrightarrow> years st < length sc \<Longrightarrow>
   (applyDrag st sc ! y') k =
     (if 1 \<le> y' \<and> y' \<le> years st \<and> (\<exists>a. (k, a) \<in> set (assets st) \<and> \<not> isBaseline a)
      then Some (cell sc y' k / (1 + combinedAnnualDrag st) ^ y') else (sc ! y') k)"
  unfolding applyDrag_def
  using fold_drag_years_nth [of "assets st" "years st" sc "combinedAnnualDrag st" y' k]
  by (simp del: upt_Suc)

subsection \<open>Columns the crisis and volatility stages leave alone\<close>

lemma length_crisisYear [simp]: "length (crisisYear st bd nm a y sc) = length sc"
  by (simp add: crisisYear_def Let_def)

lemma crisisYear_nth_other:
  "k \<noteq> nm \<Longrightarrow> (crisisYear st bd nm a y sc ! y') k = (sc ! y') k"
  by (simp add: crisisYear_def Let_def setCell_nth)

lemma length_crisisAsset [simp]: "length (crisisAsset st bd e sc) = length sc"
  by (cases e) (simp add: crisisAsset_def fold_length)

lemma crisisAsset_nth_other:
  "isBaseline a \<or> k \<noteq> nm \<Longrightarrow> (crisisAsset st bd (nm, a) sc ! y') k = (sc ! y') k"
  by (auto simp: crisisAsset_def fold_keeps crisisYear_nth_other setCell_nth)

lemma applyCrisis_keeps:
  assumes "\<And>a. (k, a) \<in> set (assets st) \<Longrightarrow> isBaseline a"
  shows "(applyCrisis st bd sc ! y') k = (sc ! y') k"
proof -
  have "(fold (crisisAsset st bd) (assets st) sc ! y') k = (sc ! y') k"
  proof (rule fold_keeps)
    fix e sc' assume e: "e \<in> set (assets st)"
    obtain nm a where eq: "e = (nm, a)" by (cases e)
    have "isBaseline a \<or> k \<noteq> nm" using assms e eq by auto
    then show "(crisisAsset st bd e sc' ! y') k = (sc' ! y') k"
      unfolding eq by (rule crisisAsset_nth_other)
  qed
  then show ?thesis by (simp add: applyCrisis_def)
qed

lemma volatilityStep_nth_other:
  "isBaseline a \<or> k \<noteq> nm \<Longrightarrow> (volatilityStep fs y (nm, a) sc ! y') k = (sc ! y') k"
  by (auto simp: volatilityStep_def setCell_nth)

lemma applyVolatility_keeps:
  assumes "\<And>a. (k, a) \<in> set (assets st) \<Longrightarrow> isBaseline a"
  shows "(applyVolatility st fs sc ! y') k = (sc ! y') k"
proof -
  have step: "(volatilityStep fs y e sc' ! y') k = (sc' ! y') k"
    if "e \<in> set (assets st)" for y e sc'
  proof -
    obtain nm a where eq: "e = (nm, a)" by (cases e)
    have "isBaseline a \<or> k \<noteq> nm" using assms that eq by auto
    then show ?thesis unfolding eq by (rule volatilityStep_nth_other)
  qed
  have "(fold (\<lambda>y. fold (volatilityStep fs y) (assets st)) ys sc ! y') k = (sc ! y') k" for ys
    by (intro fold_keeps step)
  then show ?thesis by (simp add: applyVolatility_def del: upt_Suc)
qed

section \<open>Without risk and volatility\<close>

lemma scenario_plain:
  assumes "\<not> enableRisk st" "\<not> enableVolatility st"
    and "distinct (map fst (assets st))" "(k, a) \<in> set (assets st)" "\<not> isBaseline a"
    and "y \<le> years st"
  shows "(scenarioData st ! y) k =
     Some (toFixed2 (compound (initialAmount st) (return a) y) / (1 + combinedAnnualDrag st) ^ y)"
proof -
  have sd: "scenarioData st = applyDrag st (baselineData st)"
    using assms(1,2) by (simp add: scenarioData_def applyVolatility_def applyCrisis_def)
  have b: "(baselineData st ! y) k = Some (toFixed2 (compound (initialAmount st) (return a) y))"
    using assms by (intro baselineData_defined)
  show ?thesis
  proof (cases "y = 0")
    case True
    then show ?thesis using assms(3) b by (simp add: sd applyDrag_nth)
  next
    case False
    then show ?thesis using assms(3,4,5,6) b by (auto simp: sd applyDrag_nth cell_def)
  qed
qed

lemma e2e_value:
  "(scenarioData e2eState ! 5) ''SWPPX/SPX (S&P 500)'' = Some 140255.17"
proof -
  have "(scenarioData e2eState ! 5) ''SWPPX/SPX (S&P 500)'' =
     Some (toFixed2 (compound (initialAmount e2eState) (return (snd (defaultAssets ! 4))) 5)
             / (1 + combinedAnnualDrag e2eState) ^ 5)"
    by (rule scenario_plain) (simp_all add: e2e_facts)
  also have "combinedAnnualDrag e2eState = 0"
    by (simp add: combinedAnnualDrag_def e2e_facts)
  finally show ?thesis
    unfolding e2e_facts round_e2e by simp
qed

text \<open>
  C4, as stated: without risk and volatility the value of a non-baseline asset at year \<open>y\<close>
  equals \<open>initialAmount * (1 + return/100)^y / (1 + (annualFees + inflationRate)/100)^y\<close>.
  The code rounds the compounded value to cents before it divides by the drag: in the
  end-to-end scenario the value of year 5 is 140255.17 and not 140255.17307.
\<close>

theorem closed_form_not_exact:
  "(scenarioData e2eState ! 5) ''SWPPX/SPX (S&P 500)''
     \<noteq> Some (initialAmount e2eState * (1 + return (snd (defaultAssets ! 4)) / 100) ^ 5
               / (1 + (annualFees e2eState + inflationRate e2eState) / 100) ^ 5)"
  unfolding e2e_value e2e_facts by (simp add: power_divide)

text \<open>
  C4, amended. Without risk and volatility the value of a non-baseline asset at every year
  \<open>y\<close> in \<open>0..years\<close> is the result of the compounding loop (\<open>initialAmount\<close> multiplied \<open>y\<close>
  times by \<open>1 + return/100\<close> in binary64 arithmetic) rounded to two decimals, divided by
  \<open>(1 + (annualFees + inflationRate)/100)^y\<close>. With an initial amount of 100000 and a return
  of 15 the loop reaches 174900.62499999991 in year 4, which is stored as 174900.62, where
  the exact power 174900.625 would round to 174900.63.
\<close>

theorem no_risk_closed_form:
  assumes "\<not> enableRisk st" "\<not> enableVolatility st"
    and "distinct (map fst (assets st))" "(name, a) \<in> set (assets st)" "\<not> isBaseline a"
    and "y \<le> years st"
  shows "(scenarioData st ! y) name =
     Some (toFixed2 (compound (initialAmount st) (return a) y)
             / (1 + (annualFees st + inflationRate st) / 100) ^ y)"
  using scenario_plain [OF assms] by (simp add: combinedAnnualDrag_def)

theorem no_risk_closed_form_witness:
  "(scenarioData tieState ! 4) ''New Asset 7'' = Some 174900.62"
proof -
  have "(scenarioData tieState ! 4) ''New Asset 7'' =
     Some (toFixed2 (compound (initialAmount tieState) (return (newAsset\<lparr>return := 15\<rparr>)) 4)
             / (1 + (annualFees tieState + inflationRate tieState) / 100) ^ 4)"
    by (rule no_risk_closed_form) (simp_all add: tie_facts)
  then show ?thesis unfolding tie_facts round_tie by simp
qed

text \<open>
  C5. With \<open>initialAmount = 100000\<close>, \<open>years = 5\<close>, no fees, no inflation, no risk and no
  volatility, a non-baseline asset with return 7 is worth exactly 140255.17 in year 5.
\<close>

theorem end_to_end_year5:
  assumes "initialAmount st = 100000" "years st = 5" "annualFees st = 0" "inflationRate st = 0"
    and "\<not> enableRisk st" "\<not> enableVolatility st"
    and "distinct (map fst (assets st))" "(name, a) \<in> set (assets st)" "\<not> isBaseline a"
    and "return a = 7"
  shows "(scenarioData st ! 5) name = Some 140255.17"
proof -
  have "(scenarioData st ! 5) name =
     Some (toFixed2 (compound (initialAmount st) (return a) 5)
             / (1 + combinedAnnualDrag st) ^ 5)"
    using assms by (intro scenario_plain) simp_all
  also have "combinedAnnualDrag st = 0"
    by (simp add: combinedAnnualDrag_def assms)
  finally show ?thesis
    unfolding assms round_e2e by simp
qed

theorem end_to_end_year5_witness:
  "(scenarioData e2eState ! 5) ''SWPPX/SPX (S&P 500)'' = Some 140255.17"
  by (rule end_to_end_year5 [where a = "snd (defaultAssets ! 4)"]) (simp_all add: e2e_facts)

section \<open>The baseline series\<close>

lemma scenario_baselineKey:
  assumes "distinct (map fst (assets st))" "(baselineKey, a) \<in> set (assets st)" "isBaseline a"
    and "y \<le> years st"
  shows "(scenarioData st ! y) baselineKey = Some (toFixed2 (initialAmount st))"
proof -
  have only: "isBaseline a'" if "(baselineKey, a') \<in> set (assets st)" for a'
    using eq_key_imp_eq_value [OF assms(1) that assms(2)] assms(3) by simp
  have "(scenarioData st ! y) baselineKey
          = (applyCrisis st (baselineData st) (applyDrag st (baselineData st)) ! y) baselineKey"
    unfolding scenarioData_def using only by (rule applyVolatility_keeps)
  also have "\<dots> = (applyDrag st (baselineData st) ! y) baselineKey"
    using only by (rule applyCrisis_keeps)
  also have "\<dots> = (baselineData st ! y) baselineKey"
    using assms(1) only by (auto simp: applyDrag_nth)
  also have "\<dots> = Some (toFixed2 (initialAmount st))"
    using only assms(4) by (rule baselineData_baselineKey)
  finally show ?thesis .
qed

text \<open>
  C3, as stated: the baseline value equals \<open>initialAmount\<close> exactly. The code stores
  \<^verbatim>\<open>parseFloat(initialAmount.toFixed(2))\<close>: with an initial amount of 1234.567 the baseline
  series holds 1234.57.
\<close>

theorem baseline_not_exact:
  "(scenarioData fractionalState ! 0) baselineKey = Some 1234.57
   \<and> (scenarioData fractionalState ! 0) baselineKey \<noteq> Some (initialAmount fractionalState)"
proof -
  have v: "(scenarioData fractionalState ! 0) baselineKey
             = Some (toFixed2 (initialAmount fractionalState))"
    by (rule scenario_baselineKey [where a = "snd (hd defaultAssets)"])
       (simp_all add: fractional_facts default_facts)
  have r: "toFixed2 (initialAmount fractionalState) = 1234.57"
    by (simp add: fractional_facts toFixed2_def)
  show ?thesis unfolding v r by (simp add: fractional_facts)
qed

text \<open>
  C3, amended. For the baseline asset (\<open>isBaseline\<close> true, stored under the built-in key
  \<open>Baseline (No Scenario)\<close>), at every year \<open>0..years\<close> and for every fees, inflation, crisis,
  volatility and seed setting, the trajectory value is \<open>initialAmount\<close> rounded to two
  decimals, which is \<open>initialAmount\<close> itself when that is a whole number of cents; the drag,
  crisis and volatility stages never change the series.
\<close>

theorem baseline_series_flat:
  assumes "distinct (map fst (assets st))" "(baselineKey, a) \<in> set (assets st)" "isBaseline a"
    and "y \<le> years st"
  shows "(scenarioData st ! y) baselineKey = Some (toFixed2 (initialAmount st))
       \<and> (initialAmount st * 100 \<in> \<int> \<longrightarrow> (scenarioData st ! y) baselineKey = Some (initialAmount st))"
  using scenario_baselineKey [OF assms] by (simp add: toFixed2_cents)

theorem baseline_series_flat_witness:
  "(scenarioData defaultState ! 3) baselineKey = Some (initialAmount defaultState)"
proof -
  have "initialAmount defaultState * 100 \<in> \<int>" by (simp add: default_facts)
  moreover have "(scenarioData defaultState ! 3) baselineKey
      = Some (toFixed2 (initialAmount defaultState))
    \<and> (initialAmount defaultState * 100 \<in> \<int> \<longrightarrow>
         (scenarioData defaultState ! 3) baselineKey = Some (initialAmount defaultState))"
    by (rule baseline_series_flat [where a = "snd (hd defaultAssets)"])
       (simp_all add: default_facts)
  ultimately show ?thesis by blast
qed

section \<open>The crisis model\<close>

text \<open>
  C1. The claim: for every sensitivity in [0,2] the crisis model multiplies by the asset's own
  \<open>crisisSensitivity\<close>. At sensitivity 0 the code computes with 1 instead: under a risk-off
  crisis of 20 percent an asset with \<open>drawdownImpact = 1\<close> and \<open>crisisSensitivity = 0\<close> gets
  \<open>drawdownImpactDecimal = 0.2\<close> where the claimed product is 0, and a permanent damage ratio
  of 0.82 where the claimed formula gives 0.90.
\<close>

theorem zero_sensitivity_shock:
  "(drawdown crisisState / 100) * drawdownImpact zeroSensitivityAsset
      * crisisSensitivity zeroSensitivityAsset = 0
   \<and> drawdownImpactDecimal crisisState zeroSensitivityAsset = 0.2
   \<and> permanentDamageRatio crisisState zeroSensitivityAsset = 0.82"
  by (simp add: drawdownImpactDecimal_def permanentDamageRatio_def crisisSensitivityOr1_def
        crisisState_def defaultState_def zeroSensitivityAsset_def newAsset_def)

subsection \<open>The recovery target bounds the crisis path\<close>

lemma crisisYear_writes:
  "\<exists>v. crisisYear st bd nm a y sc = setCell sc y nm v \<and> v \<le> recoveryTarget st bd nm a y"
proof -
  let ?t = "recoveryTarget st bd nm a y"
  let ?grown = "cell sc (y - 1) nm * (1 + return a * permanentDamageRatio st a / 100)"
  let ?v = "if real y \<le> recoveryYears st + 1
            then min (cell sc 1 nm + (?t - cell sc 1 nm)
                        * (((real y - 1) / recoveryYears st) powr recoveryExponent st)) ?t
            else if ?grown > ?t then ?t else ?grown"
  have "crisisYear st bd nm a y sc = setCell sc y nm ?v"
    by (simp add: crisisYear_def Let_def)
  moreover have "?v \<le> ?t" by simp
  ultimately show ?thesis by blast
qed

lemma crisisYear_nth_own:
  assumes "y < length sc"
  shows "\<exists>v. (crisisYear st bd nm a y sc ! y) nm = Some v \<and> v \<le> recoveryTarget st bd nm a y"
proof -
  obtain v where v: "crisisYear st bd nm a y sc = setCell sc y nm v"
      "v \<le> recoveryTarget st bd nm a y"
    using crisisYear_writes by blast
  show ?thesis using assms v(2) by (simp add: v(1) setCell_nth)
qed

lemma crisisYear_nth_row_other:
  assumes "y' \<noteq> y"
  shows "(crisisYear st bd nm a y sc ! y') k = (sc ! y') k"
proof -
  obtain v where v: "crisisYear st bd nm a y sc = setCell sc y nm v"
    using crisisYear_writes by blast
  show ?thesis using assms by (simp add: v setCell_nth)
qed

lemma fold_crisisYear_bound:
  "n < length sc \<Longrightarrow> 2 \<le> y \<Longrightarrow> y \<le> n \<Longrightarrow>
   \<exists>v. (fold (crisisYear st bd nm a) [2..<Suc n] sc ! y) nm = Some v
       \<and> v \<le> recoveryTarget st bd nm a y"
proof (induction n)
  case 0
  then show ?case by simp
next
  case (Suc n)
  let ?sc = "fold (crisisYear st bd nm a) [2..<Suc n] sc"
  have len: "length ?sc = length sc" by (intro fold_length) simp
  have split: "[2..<Suc (Suc n)] = [2..<Suc n] @ [Suc n]"
    using Suc.prems by (intro upt_Suc_append) simp
  have last: "fold (crisisYear st bd nm a) [2..<Suc (Suc n)] sc
                = crisisYear st bd nm a (Suc n) ?sc"
    unfolding split by (simp del: upt_Suc)
  show ?case
  proof (cases "y = Suc n")
    case True
    have "Suc n < length ?sc" using Suc.prems(1) len by simp
    then show ?thesis unfolding last True by (rule crisisYear_nth_own)
  next
    case False
    then have "y \<le> n" using Suc.prems(3) by simp
    then have "\<exists>v. (?sc ! y) nm = Some v \<and> v \<le> recoveryTarget st bd nm a y"
      using Suc.prems by (intro Suc.IH) simp_all
    then show ?thesis unfolding last using False by (simp add: crisisYear_nth_row_other)
  qed
qed

lemma crisisAsset_bound:
  assumes "\<not> isBaseline a" "years st < length sc" "2 \<le> y" "y \<le> years st"
  shows "\<exists>v. (crisisAsset st bd (nm, a) sc ! y) nm = Some v
           \<and> v \<le> recoveryTarget st bd nm a y"
proof -
  let ?sc1 = "if years st \<ge> 1
              then setCell sc 1 nm (cell sc 1 nm * (1 - drawdownImpactDecimal st a)) else sc"
  have "years st < length ?sc1" using assms(2) by simp
  then have "\<exists>v. (fold (crisisYear st bd nm a) [2..<Suc (years st)] ?sc1 ! y) nm = Some v
       \<and> v \<le> recoveryTarget st bd nm a y"
    using assms(3,4) by (rule fold_crisisYear_bound)
  then show ?thesis using assms(1) by (simp add: crisisAsset_def Let_def del: upt_Suc)
qed

lemma fold_crisisAsset_bound:
  "distinct (map fst as) \<Longrightarrow> (nm, a) \<in> set as \<Longrightarrow> \<not> isBaseline a \<Longrightarrow>
   years st < length sc \<Longrightarrow> 2 \<le> y \<Longrightarrow> y \<le> years st \<Longrightarrow>
   \<exists>v. (fold (crisisAsset st bd) as sc ! y) nm = Some v \<and> v \<le> recoveryTarget st bd nm a y"
proof (induction as arbitrary: sc)
  case Nil
  then show ?case by simp
next
  case (Cons e as)
  obtain k0 a0 where e: "e = (k0, a0)" by (cases e)
  show ?case
  proof (cases "k0 = nm")
    case True
    have notin: "nm \<notin> fst ` set as" using Cons.prems(1) e True by simp
    then have here: "a0 = a" using Cons.prems(2) e True by (auto simp: image_iff)
    have keep: "(fold (crisisAsset st bd) as sc' ! y) nm = (sc' ! y) nm" for sc'
    proof (rule fold_keeps)
      fix x sc'' assume x: "x \<in> set as"
      obtain k1 a1 where x1: "x = (k1, a1)" by (cases x)
      have "nm \<noteq> k1" using notin x x1 by (auto simp: image_iff)
      then show "(crisisAsset st bd x sc'' ! y) nm = (sc'' ! y) nm"
        unfolding x1 by (intro crisisAsset_nth_other) simp
    qed
    have "\<exists>v. (crisisAsset st bd (nm, a) sc ! y) nm = Some v
             \<and> v \<le> recoveryTarget st bd nm a y"
      using Cons.prems(3,4,5,6) by (rule crisisAsset_bound)
    then show ?thesis by (simp add: e True here keep)
  next
    case False
    then have "(nm, a) \<in> set as" using Cons.prems(2) e by auto
    moreover have "distinct (map fst as)" using Cons.prems(1) by simp
    moreover have "years st < length (crisisAsset st bd e sc)" using Cons.prems(4) by simp
    ultimately have "\<exists>v. (fold (crisisAsset st bd) as (crisisAsset st bd e sc) ! y) nm = Some v
        \<and> v \<le> recoveryTarget st bd nm a y"
      using Cons.prems(3,5,6) by (intro Cons.IH)
    then show ?thesis by simp
  qed
qed

text \<open>
  C2. When the crisis model runs and volatility is off, the scenario value of a non-baseline
  asset at every year \<open>y\<close> from 2 to \<open>years\<close> is at most that year's recovery target
  \<open>(baselineValue[y] / (1 + combinedDrag)^y) * permanentDamageRatio\<close>, in the recovery window
  and after it.
\<close>

theorem crisis_value_capped:
  assumes "enableRisk st" "crisisType st \<noteq> ''NONE''" "\<not> enableVolatility st"
    and "distinct (map fst (assets st))" "(name, a) \<in> set (assets st)" "\<not> isBaseline a"
    and "2 \<le> y" "y \<le> years st"
  shows "\<exists>v b. (scenarioData st ! y) name = Some v \<and> (baselineData st ! y) name = Some b
           \<and> v \<le> (b / (1 + (annualFees st + inflationRate st) / 100) ^ y)
                    * permanentDamageRatio st a"
proof -
  let ?bd = "baselineData st"
  have sd: "scenarioData st = fold (crisisAsset st ?bd) (assets st) (applyDrag st ?bd)"
    using assms(1,2,3) by (simp add: scenarioData_def applyVolatility_def applyCrisis_def)
  have "years st < length (applyDrag st ?bd)" by simp
  then obtain v where v: "(scenarioData st ! y) name = Some v"
      "v \<le> recoveryTarget st ?bd name a y"
    unfolding sd using fold_crisisAsset_bound [OF assms(4,5,6) _ assms(7,8)] by blast
  have b: "(?bd ! y) name = Some (toFixed2 (compound (initialAmount st) (return a) y))"
    using assms(4,5,6,8) by (rule baselineData_defined)
  show ?thesis using v b
    by (simp add: recoveryTarget_def cell_def combinedAnnualDrag_def)
qed

theorem crisis_value_capped_witness:
  "\<exists>v b. (scenarioData crisisState ! 3) ''SWPPX/SPX (S&P 500)'' = Some v
     \<and> (baselineData crisisState ! 3) ''SWPPX/SPX (S&P 500)'' = Some b
     \<and> v \<le> (b / (1 + (annualFees crisisState + inflationRate crisisState) / 100) ^ 3)
              * permanentDamageRatio crisisState (snd (defaultAssets ! 4))"
  by (rule crisis_value_capped) (simp_all add: crisis_facts e2e_facts)

subsection \<open>The shock of year 1\<close>

lemma fold_crisisYear_year1:
  "(fold (crisisYear st bd nm a) [2..<Suc n] sc ! Suc 0) k = (sc ! Suc 0) k"
proof (rule fold_keeps)
  fix y sc' assume "y \<in> set [2..<Suc n]"
  then have "Suc 0 \<noteq> y" by (simp del: upt_Suc)
  then show "(crisisYear st bd nm a y sc' ! Suc 0) k = (sc' ! Suc 0) k"
    by (rule crisisYear_nth_row_other)
qed

lemma crisisAsset_year1:
  assumes "\<not> isBaseline a" "Suc 0 \<le> years st" "years st < length sc"
  shows "(crisisAsset st bd (nm, a) sc ! Suc 0) nm
           = Some (cell sc (Suc 0) nm * (1 - drawdownImpactDecimal st a))"
  using assms
  by (simp add: crisisAsset_def fold_crisisYear_year1 setCell_nth del: upt_Suc)

lemma fold_crisisAsset_year1:
  "distinct (map fst as) \<Longrightarrow> (nm, a) \<in> set as \<Longrightarrow> \<not> isBaseline a \<Longrightarrow>
   Suc 0 \<le> years st \<Longrightarrow> years st < length sc \<Longrightarrow>
   (fold (crisisAsset st bd) as sc ! Suc 0) nm
     = Some (cell sc (Suc 0) nm * (1 - drawdownImpactDecimal st a))"
proof (induction as arbitrary: sc)
  case Nil
  then show ?case by simp
next
  case (Cons e as)
  obtain k0 a0 where e: "e = (k0, a0)" by (cases e)
  show ?case
  proof (cases "k0 = nm")
    case True
    have notin: "nm \<notin> fst ` set as" using Cons.prems(1) e True by simp
    then have here: "a0 = a" using Cons.prems(2) e True by (auto simp: image_iff)
    have keep: "(fold (crisisAsset st bd) as sc' ! Suc 0) nm = (sc' ! Suc 0) nm" for sc'
    proof (rule fold_keeps)
      fix x sc'' assume x: "x \<in> set as"
      obtain k1 a1 where x1: "x = (k1, a1)" by (cases x)
      have "nm \<noteq> k1" using notin x x1 by (auto simp: image_iff)
      then show "(crisisAsset st bd x sc'' ! Suc 0) nm = (sc'' ! Suc 0) nm"
        unfolding x1 by (intro crisisAsset_nth_other) simp
    qed
    have "(crisisAsset st bd (nm, a) sc ! Suc 0) nm
            = Some (cell sc (Suc 0) nm * (1 - drawdownImpactDecimal st a))"
      using Cons.prems(3,4,5) by (rule crisisAsset_year1)
    then show ?thesis by (simp add: e True here keep)
  next
    case False
    let ?sc = "crisisAsset st bd e sc"
    have "(nm, a) \<in> set as" using False Cons.prems(2) e by auto
    moreover have "distinct (map fst as)" using Cons.prems(1) by simp
    moreover have "years st < length ?sc" using Cons.prems(5) by simp
    ultimately have "(fold (crisisAsset st bd) as ?sc ! Suc 0) nm
        = Some (cell ?sc (Suc 0) nm * (1 - drawdownImpactDecimal st a))"
      using Cons.prems(3,4) by (intro Cons.IH)
    moreover have "cell ?sc (Suc 0) nm = cell sc (Suc 0) nm"
      using False by (simp add: cell_def e crisisAsset_nth_other)
    ultimately show ?thesis by simp
  qed
qed

lemma crisis_stage_year1:
  assumes "enableRisk st" "crisisType st \<noteq> ''NONE''"
    and "distinct (map fst (assets st))" "(name, a) \<in> set (assets st)" "\<not> isBaseline a"
    and "1 \<le> years st"
  shows "(applyCrisis st (baselineData st) (applyDrag st (baselineData st)) ! 1) name =
     Some (toFixed2 (compound (initialAmount st) (return a) 1)
             / (1 + combinedAnnualDrag st) ^ 1 * (1 - drawdownImpactDecimal st a))"
proof -
  let ?bd = "baselineData st"
  have b: "(?bd ! 1) name = Some (toFixed2 (compound (initialAmount st) (return a) 1))"
    using assms(3,4,5,6) by (rule baselineData_defined)
  have d: "cell (applyDrag st ?bd) 1 name
             = toFixed2 (compound (initialAmount st) (return a) 1) / (1 + combinedAnnualDrag st) ^ 1"
    using assms(3,4,5,6) b by (auto simp: cell_def applyDrag_nth)
  have "(fold (crisisAsset st ?bd) (assets st) (applyDrag st ?bd) ! 1) name
          = Some (cell (applyDrag st ?bd) 1 name * (1 - drawdownImpactDecimal st a))"
    using assms(3,4,5,6) fold_crisisAsset_year1 [of "assets st" name a st "applyDrag st ?bd" ?bd]
    by simp
  then show ?thesis using assms(1,2) unfolding d by (simp add: applyCrisis_def)
qed

text \<open>
  C10. When the crisis model runs, a non-baseline asset whose \<open>crisisSensitivity\<close> field is 0
  is treated as if the field were 1: \<open>drawdownImpactDecimal\<close> is
  \<open>(drawdown / 100) * drawdownImpact * 1\<close>, the permanent damage ratio is the formula of the
  crisis type with sensitivity 1, and the crisis stage multiplies the drag-adjusted value of
  year 1 by \<open>1 - (drawdown / 100) * drawdownImpact\<close>, the full scaled shock; without
  volatility that is the scenario value of year 1.
\<close>

theorem zero_sensitivity_is_one:
  assumes "enableRisk st" "crisisType st \<noteq> ''NONE''"
    and "distinct (map fst (assets st))" "(name, a) \<in> set (assets st)" "\<not> isBaseline a"
    and "crisisSensitivity a = 0" "1 \<le> years st"
  shows "drawdownImpactDecimal st a = (drawdown st / 100) * drawdownImpact a * 1
       \<and> permanentDamageRatio st a =
           (if crisisType st = ''RISK_OFF''
              then 0.90 - ((drawdown st / 100) * drawdownImpact a * 1) * 0.4 * 1
            else if crisisType st = ''RISING_RATES''
              then 0.85 - ((drawdown st / 100) * drawdownImpact a * 1) * 0.4 * 1 * min (1.5 * 1) 1
            else 0.95 - ((drawdown st / 100) * drawdownImpact a * 1) * 0.4 * 1)
       \<and> (applyCrisis st (baselineData st) (applyDrag st (baselineData st)) ! 1) name =
           Some (toFixed2 (compound (initialAmount st) (return a) 1)
                   / (1 + (annualFees st + inflationRate st) / 100) ^ 1
                 * (1 - (drawdown st / 100) * drawdownImpact a * 1))
       \<and> (\<not> enableVolatility st \<longrightarrow>
            (scenarioData st ! 1) name =
              Some (toFixed2 (compound (initialAmount st) (return a) 1)
                      / (1 + (annualFees st + inflationRate st) / 100) ^ 1
                    * (1 - (drawdown st / 100) * drawdownImpact a * 1)))"
proof -
  have s: "crisisSensitivityOr1 a = 1"
    using assms(6) by (simp add: crisisSensitivityOr1_def)
  have d: "drawdownImpactDecimal st a = (drawdown st / 100) * drawdownImpact a * 1"
    by (simp add: drawdownImpactDecimal_def s)
  have p: "permanentDamageRatio st a =
           (if crisisType st = ''RISK_OFF''
              then 0.90 - ((drawdown st / 100) * drawdownImpact a * 1) * 0.4 * 1
            else if crisisType st = ''RISING_RATES''
              then 0.85 - ((drawdown st / 100) * drawdownImpact a * 1) * 0.4 * 1 * min (1.5 * 1) 1
            else 0.95 - ((drawdown st / 100) * drawdownImpact a * 1) * 0.4 * 1)"
    by (simp add: permanentDamageRatio_def drawdownImpactDecimal_def s Let_def)
  have c: "(applyCrisis st (baselineData st) (applyDrag st (baselineData st)) ! 1) name =
           Some (toFixed2 (compound (initialAmount st) (return a) 1)
                   / (1 + (annualFees st + inflationRate st) / 100) ^ 1
                 * (1 - (drawdown st / 100) * drawdownImpact a * 1))"
    using crisis_stage_year1 [OF assms(1,2,3,4,5,7)]
    unfolding d combinedAnnualDrag_def .
  have v: "(scenarioData st ! 1) name =
              Some (toFixed2 (compound (initialAmount st) (return a) 1)
                      / (1 + (annualFees st + inflationRate st) / 100) ^ 1
                    * (1 - (drawdown st / 100) * drawdownImpact a * 1))"
    if "\<not> enableVolatility st"
    using that c by (simp add: scenarioData_def applyVolatility_def)
  show ?thesis using d p c v by blast
qed

theorem zero_sensitivity_is_one_witness:
  "drawdownImpactDecimal zeroSensitivityState zeroSensitivityAsset = 0.2
   \<and> permanentDamageRatio zeroSensitivityState zeroSensitivityAsset = 0.82
   \<and> (scenarioData zeroSensitivityState ! 1) ''New Asset 7''
       = Some (105000 / (1 + 2.5 / 100) * (1 - 0.2))"
proof -
  have nv: "\<not> enableVolatility zeroSensitivityState"
    by (simp add: zeroSensitivityState_def crisisState_def defaultState_def)
  have r: "toFixed2 (compound 100000 5 1) = 105000"
    by (simp add: binary64_eval toFixed2_def)
  note hyps = zeroSensitivity_facts(1,3,4,5,6)
  have "crisisType zeroSensitivityState \<noteq> ''NONE''" "1 \<le> years zeroSensitivityState"
    by (simp_all add: zeroSensitivity_facts)
  from zero_sensitivity_is_one [OF hyps(1) this(1) hyps(2,3,4,5) this(2)] nv
  show ?thesis
    unfolding zeroSensitivity_facts r by simp
qed

section \<open>Maximum drawdown\<close>

lemma maxDrawdownLoop_ge: "m \<le> maxDrawdownLoop xs peak m"
proof (induction xs arbitrary: peak m)
  case Nil
  show ?case by simp
next
  case (Cons c rest)
  let ?p = "if c > peak then c else peak"
  have "m \<le> max m ((?p - c) / ?p * 100)" by simp
  also have "\<dots> \<le> maxDrawdownLoop rest ?p (max m ((?p - c) / ?p * 100))"
    by (rule Cons.IH)
  finally show ?case by (simp add: Let_def)
qed

lemma maxDrawdownLoop_nondecreasing:
  "(\<And>y. k \<le> y \<Longrightarrow> y < n \<Longrightarrow> f y \<le> f (Suc y)) \<Longrightarrow>
   maxDrawdownLoop (map f [Suc k..<Suc n]) (f k) 0 = 0"
proof (induction "n - k" arbitrary: k)
  case 0
  then show ?case by simp
next
  case (Suc d)
  then have kn: "k < n" by simp
  have step: "f k \<le> f (Suc k)" using Suc.prems kn by simp
  have IH: "maxDrawdownLoop (map f [Suc (Suc k)..<Suc n]) (f (Suc k)) 0 = 0"
    using Suc.hyps Suc.prems by (intro Suc.hyps(1)) simp_all
  have peak: "(if f (Suc k) > f k then f (Suc k) else f k) = f (Suc k)"
    using step by simp
  have "[Suc k..<Suc n] = Suc k # [Suc (Suc k)..<Suc n]"
    using kn by (simp add: upt_conv_Cons)
  then show ?case using IH by (simp add: Let_def peak del: upt_Suc)
qed

lemma metricsStep_apply:
  "metricsStep sc n (k, a) m =
     (if isBaseline a then m else m(k \<mapsto> maxDrawdownOf sc n k))"
  by (simp add: metricsStep_def)

lemma fold_metricsStep:
  "fold (metricsStep sc n) as m nm =
     (if \<exists>a. (nm, a) \<in> set as \<and> \<not> isBaseline a then Some (maxDrawdownOf sc n nm) else m nm)"
proof (induction as arbitrary: m)
  case Nil
  show ?case by simp
next
  case (Cons e as)
  obtain k a where e: "e = (k, a)" by (cases e)
  show ?case by (auto simp: Cons.IH e metricsStep_apply)
qed

lemma oneYear_value:
  assumes "y \<le> 1"
  shows "(scenarioData oneYearState ! y) ''SWPPX/SPX (S&P 500)'' =
     Some (toFixed2 (compound 100000 7 y))"
proof -
  have "(scenarioData oneYearState ! y) ''SWPPX/SPX (S&P 500)'' =
     Some (toFixed2 (compound (initialAmount oneYearState) (return (snd (defaultAssets ! 4))) y)
             / (1 + combinedAnnualDrag oneYearState) ^ y)"
    using assms by (intro scenario_plain) (simp_all add: oneYear_facts e2e_facts)
  then show ?thesis unfolding oneYear_facts e2e_facts by simp
qed

lemma oneYear_cells:
  "cell (scenarioData oneYearState) 0 ''SWPPX/SPX (S&P 500)'' = 100000"
  "cell (scenarioData oneYearState) (Suc 0) ''SWPPX/SPX (S&P 500)'' = 107000"
  by (simp_all add: cell_def oneYear_value binary64_eval toFixed2_def)

text \<open>
  C7. For a non-baseline asset and a trajectory whose values are positive, the
  \<open>maxDrawdown\<close> metric is at least 0, and it is 0 when the asset's values never decrease
  from one year to the next.
\<close>

theorem maxDrawdown_sanity:
  assumes "(nm, a) \<in> set (assets st)" and "\<not> isBaseline a"
    and "\<forall>y \<le> years st. 0 < cell sc y nm"
  shows "\<exists>m. summaryMaxDrawdown st sc nm = Some m \<and> 0 \<le> m
           \<and> ((\<forall>y < years st. cell sc y nm \<le> cell sc (Suc y) nm) \<longrightarrow> m = 0)"
proof -
  let ?raw = "maxDrawdownLoop (map (\<lambda>y. cell sc y nm) [1..<Suc (years st)]) (cell sc 0 nm) 0"
  have val: "summaryMaxDrawdown st sc nm = Some (toFixed2 ?raw)"
    using assms(1,2) by (auto simp: summaryMaxDrawdown_def fold_metricsStep maxDrawdownOf_def)
  have "0 \<le> ?raw" by (rule maxDrawdownLoop_ge)
  then have nonneg: "0 \<le> toFixed2 ?raw" by (rule toFixed2_nonneg)
  have flat: "toFixed2 ?raw = 0" if "\<forall>y < years st. cell sc y nm \<le> cell sc (Suc y) nm"
  proof -
    have "maxDrawdownLoop (map (\<lambda>y. cell sc y nm) [Suc 0..<Suc (years st)]) (cell sc 0 nm) 0 = 0"
      by (rule maxDrawdownLoop_nondecreasing) (use that in simp)
    then show ?thesis by (simp add: toFixed2_zero)
  qed
  show ?thesis using val nonneg flat by simp
qed

theorem maxDrawdown_sanity_witness:
  "summaryMaxDrawdown oneYearState (scenarioData oneYearState) ''SWPPX/SPX (S&P 500)'' = Some 0"
  using maxDrawdown_sanity [of "''SWPPX/SPX (S&P 500)''" "snd (defaultAssets ! 4)" oneYearState
          "scenarioData oneYearState"]
  by (simp add: oneYear_facts e2e_facts le_Suc_eq oneYear_cells all_conj_distrib)

section \<open>Removing and adding assets\<close>

text \<open>
  C8. Removing an asset whose \<open>isBaseline\<close> is true returns normally and leaves the state, and
  with it the asset table, as it was.
\<close>

theorem remove_baseline_noop:
  "map_of (assets st) name = Some a \<Longrightarrow> isBaseline a \<Longrightarrow> handleRemoveAsset name st = Inr st"
  by (simp add: handleRemoveAsset_def)

theorem remove_baseline_noop_witness:
  "handleRemoveAsset ''Baseline (No Scenario)'' defaultState = Inr defaultState"
  by (rule remove_baseline_noop [where a = "snd (hd defaultAssets)"])
     (simp_all add: defaultState_def defaultAssets_def)

lemma string_of_nat_digit: "n < 10 \<Longrightarrow> string_of_nat n = [''0123456789'' ! n]"
  by (simp add: string_of_nat.simps [of n])

text \<open>
  C9. The claim: the generated name is distinct from every existing name, and add makes the
  table one entry longer. Adding to the default table gives the key \<open>New Asset 7\<close>; removing
  \<open>BIL (Short-Term Treasuries)\<close> leaves seven entries, so the next add generates
  \<open>New Asset 7\<close> again and overwrites that entry instead of adding one.
\<close>

theorem add_asset_name_collision:
  "handleRemoveAsset ''BIL (Short-Term Treasuries)'' (handleAddAsset defaultState)
     = Inr afterAddRemove
   \<and> assets (handleAddAsset afterAddRemove) = assets afterAddRemove"
  by (simp add: handleAddAsset_def handleRemoveAsset_def afterAddRemove_def defaultState_def
        defaultAssets_def string_of_nat_digit AList.delete_eq Let_def)

end
